theory Spec2Isabelle
  imports Complex_Main
begin

section \<open>Data model of \<^verbatim>\<open>flowp.py\<close>\<close>

text \<open>
  A point is a one-dimensional \<^verbatim>\<open>np.ndarray\<close> and the flow a two-dimensional one, given
  as the list of its rows. Python floats are idealised as real numbers; none of the
  statements below depends on rounding. The library routines the module calls
  (\<^verbatim>\<open>scipy.linalg.expm\<close>, \<^verbatim>\<open>scipy.spatial.ConvexHull\<close>, \<^verbatim>\<open>plotly.offline.plot\<close>) are
  not part of the repository: they are the three fields of an environment that every
  function of the module receives, and each may raise.
\<close>

type_synonym point = "real list"
type_synonym matrix = "real list list"

datatype exn = ValueError | IndexError | QhullError | LinAlgError | OSError

text \<open>The polytope dicts \<^verbatim>\<open>{'name': ..., 'vertices': ...}\<close>.\<close>

record polytope =
  name :: string
  vertices :: "point list"

text \<open>
  An SVG path \<^verbatim>\<open>M p0 L p1 ... L p0\<close> is kept as its gather of commands; the decimal
  rendering of the coordinates by \<^verbatim>\<open>_strip_brackets\<close> is left out.
\<close>

datatype path_cmd = Path_M point | Path_L point

text \<open>
  The figure handed to plotly: the label trace and one shape per polytope. The random
  fill colour of a shape is left out.
\<close>

record figure =
  labels_x :: "real list"
  labels_y :: "real list"
  text_labels :: "string list"
  shapes :: "path_cmd list option list"

record env =
  expm :: "matrix \<Rightarrow> exn + matrix"
  ConvexHull :: "point list \<Rightarrow> exn + int list"
  plot :: "figure \<Rightarrow> exn + unit"

text \<open>What \<^verbatim>\<open>approx\<close> returns: \<^verbatim>\<open>None\<close> from the plotting routine, or the list of dicts.\<close>

datatype result = PyNone | Polytopes "polytope list"

section \<open>numpy operations\<close>

text \<open>A list comprehension over a body that may raise stops at the first exception.\<close>

fun gather :: "('e + 'a) list \<Rightarrow> 'e + 'a list" where
  "gather [] = Inr []"
| "gather (Inl e # xs) = Inl e"
| "gather (Inr y # xs) = map_sum (\<lambda>e. e) (\<lambda>ys. y # ys) (gather xs)"

text \<open>\<^verbatim>\<open>step_size * flow\<close>: a scalar times an array, entry by entry.\<close>

definition smul :: "real \<Rightarrow> matrix \<Rightarrow> matrix" where
  "smul c A = map (map (\<lambda>x. c * x)) A"

definition dot :: "point \<Rightarrow> point \<Rightarrow> real" where
  "dot r v = sum_list (map2 (\<lambda>a b. a * b) r v)"

text \<open>
  \<^verbatim>\<open>M @ v\<close> for a two-dimensional \<open>M\<close> and a one-dimensional \<open>v\<close>: numpy raises
  \<^verbatim>\<open>ValueError\<close> unless the number of columns of \<open>M\<close> is the length of \<open>v\<close>. A matrix
  with no rows is the 0 x 0 matrix.
\<close>

definition conforms :: "matrix \<Rightarrow> point \<Rightarrow> bool" where
  "conforms M v \<longleftrightarrow> (\<forall>r \<in> set M. length r = length v) \<and> (M = [] \<longrightarrow> v = [])"

definition apply_matrix :: "matrix \<Rightarrow> point \<Rightarrow> point" where
  "apply_matrix M v = map (\<lambda>r. dot r v) M"

definition matvec :: "matrix \<Rightarrow> point \<Rightarrow> exn + point" where
  "matvec M v = (if conforms M v then Inr (apply_matrix M v) else Inl ValueError)"

text \<open>
  An arithmetic operator on two one-dimensional arrays: entry by entry when the lengths
  agree, broadcasting an array of length one, \<^verbatim>\<open>ValueError\<close> otherwise.
\<close>

definition broadcast :: "(real \<Rightarrow> real \<Rightarrow> real) \<Rightarrow> point \<Rightarrow> point \<Rightarrow> exn + point" where
  "broadcast f v1 v2 =
     (if length v1 = length v2 then Inr (map2 f v1 v2)
      else if length v2 = 1 then Inr (map (\<lambda>a. f a (hd v2)) v1)
      else if length v1 = 1 then Inr (map (\<lambda>b. f (hd v1) b) v2)
      else Inl ValueError)"

definition vadd :: "point \<Rightarrow> point \<Rightarrow> exn + point" where
  "vadd v1 v2 = broadcast (\<lambda>a b. a + b) v1 v2"

definition vsub :: "point \<Rightarrow> point \<Rightarrow> exn + point" where
  "vsub v1 v2 = broadcast (\<lambda>a b. a - b) v1 v2"

text \<open>Indexing the rows of an array: a negative index counts from the end.\<close>

definition index :: "'a list \<Rightarrow> int \<Rightarrow> exn + 'a" where
  "index xs i =
     (if 0 \<le> i \<and> i < int (length xs) then Inr (xs ! nat i)
      else if - int (length xs) \<le> i \<and> i < 0 then Inr (xs ! nat (int (length xs) + i))
      else Inl IndexError)"

section \<open>\<^verbatim>\<open>approx\<close>\<close>

text \<open>
  Lines 53 to 81: the matrix exponential, the flowpipe, the Minkowski sum over
  \<^verbatim>\<open>itertools.product\<close>, and the list of dicts before the hull loop.
\<close>

definition minkowski :: "point list \<Rightarrow> point list \<Rightarrow> exn + point list" where
  "minkowski flowpipe bloating =
     gather (map (\<lambda>(v1, v2). vadd v1 v2) (List.product flowpipe bloating))"

definition candidates ::
  "env \<Rightarrow> point list \<Rightarrow> matrix \<Rightarrow> point list \<Rightarrow> real \<Rightarrow> exn + polytope list" where
  "candidates e initial_location flow bloating step_size =
     (case expm e (smul step_size flow) of
        Inl x \<Rightarrow> Inl x
      | Inr matrix_exp \<Rightarrow>
     (case gather (map (matvec matrix_exp) initial_location) of
        Inl x \<Rightarrow> Inl x
      | Inr flowpipe \<Rightarrow>
     (case (if bloating \<noteq> [] then minkowski flowpipe bloating else Inr flowpipe) of
        Inl x \<Rightarrow> Inl x
      | Inr bloated_flowpipe \<Rightarrow>
          Inr ([\<lparr>name = ''Initial Valuation I'', vertices = initial_location\<rparr>,
                \<lparr>name = ''mat_exp(flow) * I'', vertices = flowpipe\<rparr>,
                \<lparr>name = ''Omega_1: convHull(mink_sum(mat_exp(flow) * I, bloat), I)'',
                 vertices = bloated_flowpipe @ initial_location\<rparr>]
               @ (if bloating \<noteq> [] then [\<lparr>name = ''Bloating'', vertices = bloating\<rparr>]
                  else [])))))"

text \<open>
  Lines 83 to 86: each dict's vertices are replaced by the rows of the hull's input
  that the hull's \<^verbatim>\<open>vertices\<close> index.
\<close>

definition hull_reduce :: "env \<Rightarrow> point list \<Rightarrow> exn + point list" where
  "hull_reduce e pts =
     (case ConvexHull e pts of
        Inl x \<Rightarrow> Inl x
      | Inr verts \<Rightarrow> gather (map (index pts) verts))"

definition reduce_polytope :: "env \<Rightarrow> polytope \<Rightarrow> exn + polytope" where
  "reduce_polytope e p =
     (case hull_reduce e (vertices p) of
        Inl x \<Rightarrow> Inl x
      | Inr vs \<Rightarrow> Inr (p\<lparr>vertices := vs\<rparr>))"

section \<open>\<^verbatim>\<open>plot_polytopes\<close>\<close>

definition label_center :: "polytope \<Rightarrow> exn + point" where
  "label_center p =
     (case vertices p of
        [] \<Rightarrow> Inl IndexError
      | v # _ \<Rightarrow> vsub v [0, 1 / 10])"

definition plot_path :: "point list \<Rightarrow> path_cmd list option" where
  "plot_path v_repr =
     (case v_repr of
        [] \<Rightarrow> None
      | start # rest \<Rightarrow> Some (Path_M start # map Path_L rest @ [Path_L start]))"

definition plot_polytopes :: "env \<Rightarrow> polytope list \<Rightarrow> exn + unit" where
  "plot_polytopes e polytopes =
     (case gather (map label_center polytopes) of
        Inl x \<Rightarrow> Inl x
      | Inr centers \<Rightarrow>
     (case plot e \<lparr>labels_x = map (\<lambda>c. c ! 0) centers,
                   labels_y = map (\<lambda>c. c ! 1) centers,
                   text_labels = map name polytopes,
                   shapes = map (\<lambda>p. plot_path (vertices p)) polytopes\<rparr> of
        Inl x \<Rightarrow> Inl x
      | Inr _ \<Rightarrow> Inr ()))"

text \<open>
  The whole of \<^verbatim>\<open>approx\<close>. The two keyword parameters are optional: \<open>None\<close> is a call
  that omits the argument, and the default of the signature (\<^verbatim>\<open>step_size=1\<close>,
  \<^verbatim>\<open>plot=True\<close>) is used.
\<close>

definition with_default :: "'a \<Rightarrow> 'a option \<Rightarrow> 'a" where
  "with_default d arg = (case arg of None \<Rightarrow> d | Some a \<Rightarrow> a)"

definition approx ::
  "env \<Rightarrow> point list \<Rightarrow> matrix \<Rightarrow> point list \<Rightarrow> real option \<Rightarrow> bool option \<Rightarrow> exn + result" where
  "approx e initial_location flow bloating step_size_arg plot_arg =
     (let step_size = with_default 1 step_size_arg;
          plot_flag = with_default True plot_arg
      in case candidates e initial_location flow bloating step_size of
           Inl x \<Rightarrow> Inl x
         | Inr polytopes \<Rightarrow>
        (case gather (map (reduce_polytope e) polytopes) of
           Inl x \<Rightarrow> Inl x
         | Inr reduced \<Rightarrow>
             if plot_flag
             then (case plot_polytopes e reduced of Inl x \<Rightarrow> Inl x | Inr _ \<Rightarrow> Inr PyNone)
             else Inr (Polytopes reduced)))"

section \<open>Degenerate point sets\<close>

text \<open>
  Twice the signed area of the triangle \<open>a b c\<close> of planar points; a planar set is
  degenerate when it has fewer than three points or every triple has area zero.
\<close>

definition planar :: "point list \<Rightarrow> bool" where
  "planar pts \<longleftrightarrow> (\<forall>p \<in> set pts. length p = 2)"

definition cross :: "point \<Rightarrow> point \<Rightarrow> point \<Rightarrow> real" where
  "cross a b c = (b ! 0 - a ! 0) * (c ! 1 - a ! 1) - (b ! 1 - a ! 1) * (c ! 0 - a ! 0)"

definition collinear :: "point list \<Rightarrow> bool" where
  "collinear pts \<longleftrightarrow>
     planar pts \<and> (\<forall>p \<in> set pts. \<forall>q \<in> set pts. \<forall>r \<in> set pts. cross p q r = 0)"

definition degenerate :: "point list \<Rightarrow> bool" where
  "degenerate pts \<longleftrightarrow> length pts < 3 \<or> collinear pts"

section \<open>Matrices used in the statements\<close>

definition zeros :: "nat \<Rightarrow> matrix" where
  "zeros n = replicate n (replicate n 0)"

definition eye :: "nat \<Rightarrow> matrix" where
  "eye n = map (\<lambda>i. map (\<lambda>j. if i = j then 1 else 0) [0..<n]) [0..<n]"

section \<open>An exact environment for the examples\<close>

text \<open>
  The examples below run \<^verbatim>\<open>approx\<close> in an environment computed in exact arithmetic.
  Its exponential is defined on the matrices \<open>A\<close> with \<open>A * A = 0\<close>, where the series
  stops after two terms and \<open>exp A = I + A\<close>; it raises on every other matrix. Its
  plotting routine does nothing.

  Its hull raises what scipy raises on the inputs scipy refuses: \<^verbatim>\<open>IndexError\<close> on an
  empty list (the array has no second axis to read the dimension from),
  \<^verbatim>\<open>ValueError\<close> on rows of unequal length or of fewer than two coordinates, and
  \<^verbatim>\<open>QhullError\<close> on fewer than three planar points or on collinear ones. On other
  planar points it is gift wrapping: from the lowest point, counter-clockwise, taking at
  each vertex the point that leaves every other point on its left and, among collinear
  ones, the farthest. It differs from Qhull in two ways: it is exact, so it accepts sets
  that are collinear only up to rounding, and it is planar, so it raises
  \<^verbatim>\<open>ValueError\<close> on points of three or more coordinates, where Qhull computes a hull.
\<close>

definition matmul :: "matrix \<Rightarrow> matrix \<Rightarrow> matrix" where
  "matmul A B = map (\<lambda>r. map (\<lambda>c. dot r c) (transpose B)) A"

definition madd :: "matrix \<Rightarrow> matrix \<Rightarrow> matrix" where
  "madd A B = map2 (map2 (\<lambda>a b. a + b)) A B"

definition square :: "matrix \<Rightarrow> bool" where
  "square A \<longleftrightarrow> (\<forall>r \<in> set A. length r = length A)"

definition expm_nilpotent :: "matrix \<Rightarrow> exn + matrix" where
  "expm_nilpotent A =
     (if \<not> square A then Inl ValueError
      else if matmul A A = zeros (length A) then Inr (madd (eye (length A)) A)
      else Inl LinAlgError)"

definition lower :: "point \<Rightarrow> point \<Rightarrow> bool" where
  "lower p q \<longleftrightarrow> p ! 1 < q ! 1 \<or> (p ! 1 = q ! 1 \<and> p ! 0 < q ! 0)"

definition lowest :: "point list \<Rightarrow> nat" where
  "lowest pts = fold (\<lambda>i b. if lower (pts ! i) (pts ! b) then i else b) [0..<length pts] 0"

definition dist2 :: "point \<Rightarrow> point \<Rightarrow> real" where
  "dist2 p q = (q ! 0 - p ! 0) * (q ! 0 - p ! 0) + (q ! 1 - p ! 1) * (q ! 1 - p ! 1)"

definition better :: "point \<Rightarrow> point \<Rightarrow> point \<Rightarrow> bool" where
  "better c b p \<longleftrightarrow>
     p \<noteq> c \<and> (b = c \<or> cross c b p < 0 \<or> (cross c b p = 0 \<and> dist2 c b < dist2 c p))"

definition wrap_next :: "point list \<Rightarrow> nat \<Rightarrow> nat" where
  "wrap_next pts cur =
     fold (\<lambda>i b. if better (pts ! cur) (pts ! b) (pts ! i) then i else b) [0..<length pts] cur"

fun wrap :: "point list \<Rightarrow> nat \<Rightarrow> nat \<Rightarrow> nat \<Rightarrow> nat list" where
  "wrap pts start cur 0 = []"
| "wrap pts start cur (Suc k) =
     cur # (if pts ! wrap_next pts cur = pts ! start then []
            else wrap pts start (wrap_next pts cur) k)"

definition gift_wrap :: "point list \<Rightarrow> exn + int list" where
  "gift_wrap pts =
     (case pts of
        [] \<Rightarrow> Inl IndexError
      | p # _ \<Rightarrow>
          if (\<exists>q \<in> set pts. length q \<noteq> length p) \<or> length p \<noteq> 2 then Inl ValueError
          else if degenerate pts then Inl QhullError
          else Inr (map int (wrap pts (lowest pts) (lowest pts) (length pts))))"

definition exact_env :: env where
  "exact_env = \<lparr>expm = expm_nilpotent, ConvexHull = gift_wrap, plot = (\<lambda>fig. Inr ())\<rparr>"

text \<open>
  The inputs of the examples: the unit square, a collinear region, the flow
  \<open>[[0, 1], [0, 0]]\<close> (a shear, whose square is zero) and a small triangle as bloating
  region.
\<close>

definition unit_square :: "point list" where
  "unit_square = [[0, 0], [1, 0], [1, 1], [0, 1]]"

definition segment :: "point list" where
  "segment = [[0, 0], [1, 0], [2, 0]]"

definition shear :: matrix where
  "shear = [[0, 1], [0, 0]]"

definition corner :: "point list" where
  "corner = [[0, 0], [1 / 10, 0], [0, 1 / 10]]"

text \<open>
  What the exact environment computes for the unit square under the shear with unit
  step: the candidate lists and the returned records, without bloating and with the
  small triangle; and the candidate lists of the collinear region.
\<close>

definition plain_records :: "polytope list" where
  "plain_records =
     [\<lparr>name = ''Initial Valuation I'', vertices = [[0, 0], [1, 0], [1, 1], [0, 1]]\<rparr>,
      \<lparr>name = ''mat_exp(flow) * I'', vertices = [[0, 0], [1, 0], [2, 1], [1, 1]]\<rparr>,
      \<lparr>name = ''Omega_1: convHull(mink_sum(mat_exp(flow) * I, bloat), I)'',
       vertices = [[0, 0], [1, 0], [2, 1], [0, 1]]\<rparr>]"

definition bloated_candidates :: "polytope list" where
  "bloated_candidates =
     [\<lparr>name = ''Initial Valuation I'', vertices = [[0, 0], [1, 0], [1, 1], [0, 1]]\<rparr>,
      \<lparr>name = ''mat_exp(flow) * I'', vertices = [[0, 0], [1, 0], [2, 1], [1, 1]]\<rparr>,
      \<lparr>name = ''Omega_1: convHull(mink_sum(mat_exp(flow) * I, bloat), I)'',
       vertices =
         [[0, 0], [1 / 10, 0], [0, 1 / 10], [1, 0], [11 / 10, 0], [1, 1 / 10],
          [2, 1], [21 / 10, 1], [2, 11 / 10], [1, 1], [11 / 10, 1], [1, 11 / 10],
          [0, 0], [1, 0], [1, 1], [0, 1]]\<rparr>,
      \<lparr>name = ''Bloating'', vertices = [[0, 0], [1 / 10, 0], [0, 1 / 10]]\<rparr>]"

definition bloated_records :: "polytope list" where
  "bloated_records =
     [\<lparr>name = ''Initial Valuation I'', vertices = [[0, 0], [1, 0], [1, 1], [0, 1]]\<rparr>,
      \<lparr>name = ''mat_exp(flow) * I'', vertices = [[0, 0], [1, 0], [2, 1], [1, 1]]\<rparr>,
      \<lparr>name = ''Omega_1: convHull(mink_sum(mat_exp(flow) * I, bloat), I)'',
       vertices = [[0, 0], [11 / 10, 0], [21 / 10, 1], [2, 11 / 10], [1, 11 / 10], [0, 1]]\<rparr>,
      \<lparr>name = ''Bloating'', vertices = [[0, 0], [1 / 10, 0], [0, 1 / 10]]\<rparr>]"

definition segment_candidates :: "polytope list" where
  "segment_candidates =
     [\<lparr>name = ''Initial Valuation I'', vertices = [[0, 0], [1, 0], [2, 0]]\<rparr>,
      \<lparr>name = ''mat_exp(flow) * I'', vertices = [[0, 0], [1, 0], [2, 0]]\<rparr>,
      \<lparr>name = ''Omega_1: convHull(mink_sum(mat_exp(flow) * I, bloat), I)'',
       vertices = [[0, 0], [1, 0], [2, 0], [0, 0], [1, 0], [2, 0]]\<rparr>]"

section \<open>Exceptions in comprehensions\<close>

lemma gather_Cons:
  "gather (x # xs) =
     (case x of
        Inl e \<Rightarrow> Inl e
      | Inr y \<Rightarrow> (case gather xs of Inl e \<Rightarrow> Inl e | Inr ys \<Rightarrow> Inr (y # ys)))"
  by (cases x; cases "gather xs") auto

lemma gather_map_Inr:
  "gather (map f xs) = Inr ys \<longleftrightarrow> list_all2 (\<lambda>x y. f x = Inr y) xs ys"
proof (induction xs arbitrary: ys)
  case Nil
  show ?case by auto
next
  case (Cons x xs)
  show ?case
    by (cases ys) (auto simp: gather_Cons Cons.IH[symmetric] split: sum.splits)
qed

lemma gather_map_Inl:
  assumes "k < length xs" and "f (xs ! k) = Inl x" and "\<forall>j<k. \<not> isl (f (xs ! j))"
  shows "gather (map f xs) = Inl x"
  using assms
proof (induction xs arbitrary: k)
  case Nil
  then show ?case by simp
next
  case (Cons a xs)
  show ?case
  proof (cases k)
    case 0
    with Cons.prems show ?thesis by (simp add: gather_Cons)
  next
    case (Suc m)
    from Cons.prems Suc have a: "\<not> isl (f a)" by auto
    have "gather (map f xs) = Inl x"
    proof (rule Cons.IH)
      show "m < length xs" using Cons.prems Suc by simp
      show "f (xs ! m) = Inl x" using Cons.prems Suc by simp
      show "\<forall>j<m. \<not> isl (f (xs ! j))" using Cons.prems(3) Suc by auto
    qed
    with a show ?thesis by (cases "f a") (auto simp: gather_Cons)
  qed
qed

lemma gather_map_guard:
  "gather (map (\<lambda>x. if P x then Inr (g x) else Inl c) xs)
     = (if \<forall>x \<in> set xs. P x then Inr (map g xs) else Inl c)"
  by (induction xs) auto

lemma gather_map_returns:
  "(\<forall>x \<in> set xs. \<not> isl (f x)) \<Longrightarrow> \<exists>ys. gather (map f xs) = Inr ys"
proof (induction xs)
  case Nil
  show ?case by simp
next
  case (Cons a xs)
  then obtain ys where ys: "gather (map f xs) = Inr ys" by auto
  from Cons.prems obtain y where "f a = Inr y" by (cases "f a") auto
  with ys show ?case by (simp add: gather_Cons)
qed

lemma flowpipe_eq:
  "gather (map (matvec M) vs)
     = (if \<forall>v \<in> set vs. conforms M v then Inr (map (apply_matrix M) vs) else Inl ValueError)"
  unfolding matvec_def by (rule gather_map_guard)

section \<open>The hull loop\<close>

lemma index_in_set: "index xs i = Inr y \<Longrightarrow> y \<in> set xs"
  by (auto simp: index_def split: if_splits)

lemma hull_reduce_subset:
  assumes "hull_reduce e pts = Inr vs"
  shows "set vs \<subseteq> set pts"
proof -
  from assms obtain verts where "list_all2 (\<lambda>i y. index pts i = Inr y) verts vs"
    by (auto simp: hull_reduce_def gather_map_Inr split: sum.splits)
  then have nth: "\<forall>k<length vs. index pts (verts ! k) = Inr (vs ! k)"
    by (simp add: list_all2_conv_all_nth)
  show ?thesis
  proof
    fix y assume "y \<in> set vs"
    then obtain k where "k < length vs" and "vs ! k = y"
      by (auto simp: in_set_conv_nth)
    with nth have "index pts (verts ! k) = Inr y" by auto
    then show "y \<in> set pts" by (rule index_in_set)
  qed
qed

lemma reduce_polytope_Inr:
  "reduce_polytope e p = Inr r
     \<longleftrightarrow> name r = name p \<and> hull_reduce e (vertices p) = Inr (vertices r)"
  by (cases p; cases r) (auto simp: reduce_polytope_def split: sum.splits)

lemma reduce_polytope_Inl:
  "reduce_polytope e p = Inl x \<longleftrightarrow> hull_reduce e (vertices p) = Inl x"
  by (auto simp: reduce_polytope_def split: sum.splits)

section \<open>What a returning call has computed\<close>

lemma approx_Polytopes:
  "approx e i f b sa pa = Inr (Polytopes recs) \<longleftrightarrow>
     pa = Some False \<and>
     (\<exists>ps. candidates e i f b (with_default 1 sa) = Inr ps
          \<and> list_all2 (\<lambda>p r. reduce_polytope e p = Inr r) ps recs)"
  unfolding gather_map_Inr[symmetric]
  by (cases pa) (auto simp: approx_def with_default_def split: sum.splits)

lemma candidates_Inr:
  "candidates e i f b s = Inr ps \<longleftrightarrow>
     (\<exists>M bf. expm e (smul s f) = Inr M \<and> (\<forall>v \<in> set i. conforms M v)
        \<and> (if b \<noteq> [] then minkowski (map (apply_matrix M) i) b
            else Inr (map (apply_matrix M) i)) = Inr bf
        \<and> ps = [\<lparr>name = ''Initial Valuation I'', vertices = i\<rparr>,
                 \<lparr>name = ''mat_exp(flow) * I'', vertices = map (apply_matrix M) i\<rparr>,
                 \<lparr>name = ''Omega_1: convHull(mink_sum(mat_exp(flow) * I, bloat), I)'',
                  vertices = bf @ i\<rparr>]
                @ (if b \<noteq> [] then [\<lparr>name = ''Bloating'', vertices = b\<rparr>] else []))"
  unfolding candidates_def
  by (auto simp: flowpipe_eq split: sum.splits if_splits)

text \<open>
  The call returns the records as soon as the candidate lists are built and the hull
  routine returns in-range vertices for each of them.
\<close>

lemma approx_returns:
  assumes "candidates e i f b (with_default 1 sa) = Inr ps"
    and "\<forall>p \<in> set ps. \<not> isl (hull_reduce e (vertices p))"
  shows "\<exists>recs. approx e i f b sa (Some False) = Inr (Polytopes recs)"
proof -
  from assms(2) have "\<forall>p \<in> set ps. \<not> isl (reduce_polytope e p)"
    by (auto simp: reduce_polytope_def split: sum.splits)
  then obtain recs where "gather (map (reduce_polytope e) ps) = Inr recs"
    using gather_map_returns by blast
  with assms(1) show ?thesis
    by (simp add: approx_def with_default_def)
qed

lemma minkowski_Inr:
  "minkowski fp b = Inr psums \<longleftrightarrow>
     list_all2 (\<lambda>(p, q). \<lambda>s. vadd p q = Inr s) (List.product fp b) psums"
  unfolding minkowski_def gather_map_Inr split_def ..

lemma approx_records:
  assumes ok: "approx e i f b sa pa = Inr (Polytopes recs)"
    and M: "expm e (smul (with_default 1 sa) f) = Inr M"
  shows "\<exists>bf r0 r1 r2 rest.
      (if b \<noteq> [] then minkowski (map (apply_matrix M) i) b
       else Inr (map (apply_matrix M) i)) = Inr bf
    \<and> recs = r0 # r1 # r2 # rest
    \<and> name r0 = ''Initial Valuation I'' \<and> hull_reduce e i = Inr (vertices r0)
    \<and> name r1 = ''mat_exp(flow) * I''
    \<and> hull_reduce e (map (apply_matrix M) i) = Inr (vertices r1)
    \<and> name r2 = ''Omega_1: convHull(mink_sum(mat_exp(flow) * I, bloat), I)''
    \<and> hull_reduce e (bf @ i) = Inr (vertices r2)
    \<and> (if b \<noteq> [] then \<exists>r3. rest = [r3] \<and> name r3 = ''Bloating''
                               \<and> hull_reduce e b = Inr (vertices r3)
        else rest = [])"
proof -
  from ok obtain ps where ps: "candidates e i f b (with_default 1 sa) = Inr ps"
    and red: "list_all2 (\<lambda>p r. reduce_polytope e p = Inr r) ps recs"
    unfolding approx_Polytopes by blast
  from ps M obtain bf where
    bf: "(if b \<noteq> [] then minkowski (map (apply_matrix M) i) b
          else Inr (map (apply_matrix M) i)) = Inr bf"
    and ps_eq: "ps = [\<lparr>name = ''Initial Valuation I'', vertices = i\<rparr>,
                 \<lparr>name = ''mat_exp(flow) * I'', vertices = map (apply_matrix M) i\<rparr>,
                 \<lparr>name = ''Omega_1: convHull(mink_sum(mat_exp(flow) * I, bloat), I)'',
                  vertices = bf @ i\<rparr>]
                @ (if b \<noteq> [] then [\<lparr>name = ''Bloating'', vertices = b\<rparr>] else [])"
    unfolding candidates_Inr by auto
  show ?thesis
  proof (cases "b = []")
    case True
    with red ps_eq bf show ?thesis
      by (auto simp: list_all2_Cons1 reduce_polytope_Inr)
  next
    case False
    with red ps_eq bf show ?thesis
      by (auto simp: list_all2_Cons1 reduce_polytope_Inr)
  qed
qed

text \<open>
  C1. When the call returns the records, the second one is named
  \<^verbatim>\<open>mat_exp(flow) * I\<close> and its vertices are the hull reduction of the list of the
  products \<open>M @ v\<close>, row by row \<open>\<Sum> r\<^sub>i * v\<^sub>i\<close>, for \<open>v\<close> in the initial region, where
  \<open>M\<close> is what the matrix exponential returned for the flow with every entry multiplied
  by the step size (one when the argument is omitted).
\<close>

theorem propagated_record:
  assumes "approx e initial_location flow bloating step_size_arg plot_arg = Inr (Polytopes recs)"
    and "expm e (map (map (\<lambda>x. (case step_size_arg of None \<Rightarrow> 1 | Some s \<Rightarrow> s) * x)) flow)
           = Inr M"
  shows "name (recs ! 1) = ''mat_exp(flow) * I''
       \<and> hull_reduce e
           (map (\<lambda>v. map (\<lambda>r. sum_list (map2 (\<lambda>a b. a * b) r v)) M) initial_location)
           = Inr (vertices (recs ! 1))"
proof -
  from assms(2) have M: "expm e (smul (with_default 1 step_size_arg) flow) = Inr M"
    by (simp add: smul_def with_default_def)
  have eq: "(\<lambda>v. map (\<lambda>r. sum_list (map2 (\<lambda>a b. a * b) r v)) M) = apply_matrix M"
    by (simp add: apply_matrix_def dot_def fun_eq_iff)
  from approx_records[OF assms(1) M] show ?thesis
    unfolding eq by auto
qed

text \<open>
  C2. With a non-empty bloating region, the candidate points of the enclosure are the
  psums \<open>p + b\<close> for every pair of \<^verbatim>\<open>itertools.product\<close> of the propagated points and
  the bloating points, as many as there are pairs, followed by the points of the initial
  region as given; the third record holds the hull reduction of that list.
\<close>

theorem enclosure_minkowski:
  assumes "approx e initial_location flow bloating step_size_arg plot_arg = Inr (Polytopes recs)"
    and "expm e (smul (with_default 1 step_size_arg) flow) = Inr M"
    and "bloating \<noteq> []"
  shows "\<exists>psums.
           list_all2 (\<lambda>(p, b). \<lambda>s. vadd p b = Inr s)
             (List.product (map (apply_matrix M) initial_location) bloating) psums
         \<and> length psums = length initial_location * length bloating
         \<and> name (recs ! 2) = ''Omega_1: convHull(mink_sum(mat_exp(flow) * I, bloat), I)''
         \<and> hull_reduce e (psums @ initial_location) = Inr (vertices (recs ! 2))"
proof -
  from approx_records[OF assms(1,2)] assms(3) obtain psums where
    mink: "minkowski (map (apply_matrix M) initial_location) bloating = Inr psums"
    and nm: "name (recs ! 2) = ''Omega_1: convHull(mink_sum(mat_exp(flow) * I, bloat), I)''"
    and hull: "hull_reduce e (psums @ initial_location) = Inr (vertices (recs ! 2))"
    by auto
  from mink have all2: "list_all2 (\<lambda>(p, b). \<lambda>s. vadd p b = Inr s)
      (List.product (map (apply_matrix M) initial_location) bloating) psums"
    by (simp add: minkowski_Inr)
  then have "length psums = length initial_location * length bloating"
    by (auto dest: list_all2_lengthD)
  with all2 nm hull show ?thesis by blast
qed

text \<open>
  C4. The returned records are named, in this order, \<^verbatim>\<open>Initial Valuation I\<close>,
  \<^verbatim>\<open>mat_exp(flow) * I\<close> and
  \<^verbatim>\<open>Omega_1: convHull(mink_sum(mat_exp(flow) * I, bloat), I)\<close>, followed by
  \<^verbatim>\<open>Bloating\<close> exactly when the bloating region is non-empty; the first holds the hull
  reduction of the initial region and the fourth that of the bloating region.
\<close>

theorem record_order:
  assumes "approx e initial_location flow bloating step_size_arg plot_arg = Inr (Polytopes recs)"
  shows "map name recs =
           [''Initial Valuation I'', ''mat_exp(flow) * I'',
            ''Omega_1: convHull(mink_sum(mat_exp(flow) * I, bloat), I)'']
           @ (if bloating \<noteq> [] then [''Bloating''] else [])
       \<and> ((\<exists>r \<in> set recs. name r = ''Bloating'') \<longleftrightarrow> bloating \<noteq> [])
       \<and> hull_reduce e initial_location = Inr (vertices (recs ! 0))
       \<and> (bloating \<noteq> [] \<longrightarrow> hull_reduce e bloating = Inr (vertices (recs ! 3)))"
proof -
  from assms obtain M where "expm e (smul (with_default 1 step_size_arg) flow) = Inr M"
    unfolding approx_Polytopes candidates_Inr by blast
  from approx_records[OF assms this] show ?thesis
    by (cases "bloating = []") auto
qed

text \<open>
  C5. With an empty bloating region no record is named \<^verbatim>\<open>Bloating\<close>, and the
  enclosure record holds the hull reduction of the propagated points followed by the
  points of the initial region.
\<close>

theorem empty_bloating:
  assumes "approx e initial_location flow [] step_size_arg plot_arg = Inr (Polytopes recs)"
    and "expm e (smul (with_default 1 step_size_arg) flow) = Inr M"
  shows "map name recs =
           [''Initial Valuation I'', ''mat_exp(flow) * I'',
            ''Omega_1: convHull(mink_sum(mat_exp(flow) * I, bloat), I)'']
       \<and> (\<forall>r \<in> set recs. name r \<noteq> ''Bloating'')
       \<and> hull_reduce e (map (apply_matrix M) initial_location @ initial_location)
           = Inr (vertices (recs ! 2))"
  using approx_records[OF assms] by auto

text \<open>
  C9. Every vertex of a returned record is one of the points of the candidate list the
  record was built from: the hull loop copies rows of its input.
\<close>

theorem vertices_from_candidates:
  assumes "approx e initial_location flow bloating step_size_arg plot_arg = Inr (Polytopes recs)"
    and "candidates e initial_location flow bloating (with_default 1 step_size_arg) = Inr ps"
  shows "length recs = length ps
       \<and> (\<forall>k<length recs. name (recs ! k) = name (ps ! k)
             \<and> set (vertices (recs ! k)) \<subseteq> set (vertices (ps ! k)))"
proof -
  from assms have red: "list_all2 (\<lambda>p r. reduce_polytope e p = Inr r) ps recs"
    unfolding approx_Polytopes by auto
  then have len: "length recs = length ps"
    by (auto dest: list_all2_lengthD)
  have "name (recs ! k) = name (ps ! k) \<and> set (vertices (recs ! k)) \<subseteq> set (vertices (ps ! k))"
    if "k < length recs" for k
  proof -
    from red that len have "reduce_polytope e (ps ! k) = Inr (recs ! k)"
      by (simp add: list_all2_conv_all_nth)
    then show ?thesis
      by (auto simp: reduce_polytope_Inr dest: hull_reduce_subset)
  qed
  with len show ?thesis by blast
qed

text \<open>
  C10. A call that omits \<^verbatim>\<open>plot\<close> behaves as \<^verbatim>\<open>plot=True\<close>: it computes the records,
  hands them to \<^verbatim>\<open>plot_polytopes\<close> and returns \<^verbatim>\<open>None\<close>. The records are returned only
  when \<^verbatim>\<open>plot=False\<close> is passed.
\<close>

theorem plot_flag_default:
  "approx e initial_location flow bloating step_size_arg None
     = approx e initial_location flow bloating step_size_arg (Some True)
   \<and> approx e initial_location flow bloating step_size_arg None
     = (case approx e initial_location flow bloating step_size_arg (Some False) of
          Inl x \<Rightarrow> Inl x
        | Inr res \<Rightarrow>
            (case res of
               PyNone \<Rightarrow> Inr PyNone
             | Polytopes ps \<Rightarrow>
                 (case plot_polytopes e ps of Inl x \<Rightarrow> Inl x | Inr u \<Rightarrow> Inr PyNone)))
   \<and> (approx e initial_location flow bloating step_size_arg None = Inr r \<longrightarrow> r = PyNone)
   \<and> (approx e initial_location flow bloating step_size_arg plot_arg = Inr (Polytopes recs)
        \<longrightarrow> plot_arg = Some False)"
  by (auto simp: approx_def with_default_def split: sum.splits option.splits)

section \<open>Raising\<close>

text \<open>
  C3, as the code has it. \<^verbatim>\<open>approx\<close> tests no point set for degeneracy and defines no
  exception. When the candidate lists are built, the hull routine raises on the list the
  loop has reached and the hull computations before it returned, the call raises that very
  exception and returns nothing.
\<close>

theorem hull_exception_surfaces:
  assumes "candidates e initial_location flow bloating (with_default 1 step_size_arg) = Inr ps"
    and "k < length ps"
    and "ConvexHull e (vertices (ps ! k)) = Inl x"
    and "\<forall>j<k. \<not> isl (reduce_polytope e (ps ! j))"
  shows "approx e initial_location flow bloating step_size_arg plot_arg = Inl x"
proof -
  from assms(3) have "reduce_polytope e (ps ! k) = Inl x"
    by (simp add: reduce_polytope_def hull_reduce_def)
  from assms(2) this assms(4) have "gather (map (reduce_polytope e) ps) = Inl x"
    by (rule gather_map_Inl)
  with assms(1) show ?thesis
    by (simp add: approx_def)
qed

section \<open>The zero flow\<close>

lemma smul_zeros: "smul s (zeros n) = zeros n"
  by (simp add: smul_def zeros_def)

lemma dot_unit:
  assumes "length v = n" and "k < n"
  shows "dot (map (\<lambda>j. if k = j then 1 else 0) [0..<n]) v = v ! k"
proof -
  have "map2 (\<lambda>a b. a * b) (map (\<lambda>j. if k = j then 1 else 0) [0..<n]) v
          = map (\<lambda>j. if k = j then v ! j else 0) [0..<n]"
    using assms(1) by (auto intro!: nth_equalityI)
  then have "dot (map (\<lambda>j. if k = j then 1 else 0) [0..<n]) v
          = (\<Sum>j = 0..<n. if k = j then v ! j else 0)"
    by (simp add: dot_def interv_sum_list_conv_sum_set_nat)
  also have "\<dots> = v ! k"
    using assms(2) by simp
  finally show ?thesis .
qed

lemma apply_eye: "length v = n \<Longrightarrow> apply_matrix (eye n) v = v"
  by (auto simp: apply_matrix_def eye_def dot_unit intro!: nth_equalityI)

lemma conforms_eye: "conforms (eye n) v \<longleftrightarrow> length v = n"
  by (cases n) (auto simp: conforms_def eye_def)

text \<open>
  C7. When the flow is the zero matrix and the matrix exponential returns the identity
  for it, then for every step size the propagated points are the points of the initial
  region, and the second record has the vertices of the first.
\<close>

theorem zero_flow_identity:
  assumes "approx e initial_location (zeros n) bloating step_size_arg plot_arg
             = Inr (Polytopes recs)"
    and "expm e (zeros n) = Inr (eye n)"
  shows "name (recs ! 0) = ''Initial Valuation I''
       \<and> name (recs ! 1) = ''mat_exp(flow) * I''
       \<and> map (apply_matrix (eye n)) initial_location = initial_location
       \<and> vertices (recs ! 1) = vertices (recs ! 0)"
proof -
  have M: "expm e (smul (with_default 1 step_size_arg) (zeros n)) = Inr (eye n)"
    using assms(2) by (simp add: smul_zeros)
  from assms(1) M have "\<forall>v \<in> set initial_location. conforms (eye n) v"
    unfolding approx_Polytopes candidates_Inr by auto
  then have same: "map (apply_matrix (eye n)) initial_location = initial_location"
    by (simp add: conforms_eye apply_eye map_idI)
  from approx_records[OF assms(1) M] same show ?thesis
    by auto
qed

section \<open>Shapes and the step size\<close>

lemma smul_one: "smul 1 A = A"
  by (simp add: smul_def map_idI)

text \<open>
  C8, as the code has it. When the matrix exponential does not have as many columns as
  some point of the initial region has coordinates, the call raises numpy's
  \<^verbatim>\<open>ValueError\<close>. The step size is not checked: whatever its sign, a call with step
  size \<open>s\<close> is the call with the flow scaled by \<open>s\<close> and step size one.
\<close>

theorem shape_mismatch_raises:
  "(expm e (smul (with_default 1 step_size_arg) flow) = Inr M
      \<and> v \<in> set initial_location \<and> \<not> conforms M v
      \<longrightarrow> approx e initial_location flow bloating step_size_arg plot_arg = Inl ValueError)
   \<and> approx e initial_location flow bloating (Some s) plot_arg
       = approx e initial_location (smul s flow) bloating (Some 1) plot_arg"
proof -
  have "approx e initial_location flow bloating step_size_arg plot_arg = Inl ValueError"
    if "expm e (smul (with_default 1 step_size_arg) flow) = Inr M"
      and "v \<in> set initial_location" and "\<not> conforms M v"
  proof -
    from that(2,3) have "gather (map (matvec M) initial_location) = Inl ValueError"
      by (auto simp: flowpipe_eq)
    with that(1) show ?thesis
      by (simp add: approx_def candidates_def)
  qed
  moreover have "approx e initial_location flow bloating (Some s) plot_arg
       = approx e initial_location (smul s flow) bloating (Some 1) plot_arg"
    by (simp add: approx_def candidates_def with_default_def smul_one)
  ultimately show ?thesis by blast
qed

section \<open>Runs in the exact environment\<close>

lemma expm_shear: "expm exact_env (smul (with_default 1 None) shear) = Inr [[1, 1], [0, 1]]"
  by code_simp

lemma run_plain:
  "approx exact_env unit_square shear [] None (Some False) = Inr (Polytopes plain_records)"
  by code_simp

lemma run_bloated:
  "approx exact_env unit_square shear corner None (Some False) = Inr (Polytopes bloated_records)"
  by code_simp

lemma run_plotted: "approx exact_env unit_square shear corner None None = Inr PyNone"
  by code_simp

lemma cand_bloated:
  "candidates exact_env unit_square shear corner (with_default 1 None) = Inr bloated_candidates"
  by code_simp

lemma cand_segment:
  "candidates exact_env segment shear [] (with_default 1 None) = Inr segment_candidates"
  by code_simp

lemma corner_nonempty: "corner \<noteq> []"
  by (simp add: corner_def)

lemma run_stepped:
  "approx exact_env unit_square shear [] (Some 2) (Some False)
     = Inr (Polytopes
         [\<lparr>name = ''Initial Valuation I'', vertices = [[0, 0], [1, 0], [1, 1], [0, 1]]\<rparr>,
          \<lparr>name = ''mat_exp(flow) * I'', vertices = [[0, 0], [1, 0], [3, 1], [2, 1]]\<rparr>,
          \<lparr>name = ''Omega_1: convHull(mink_sum(mat_exp(flow) * I, bloat), I)'',
           vertices = [[0, 0], [1, 0], [3, 1], [0, 1]]\<rparr>])"
  by code_simp

lemma expm_stepped: "expm exact_env [[0, 2], [0, 0]] = Inr [[1, 2], [0, 1]]"
  by code_simp

theorem propagated_record_witness:
  "approx exact_env [[0, 0], [1, 0], [1, 1], [0, 1]] [[0, 1], [0, 0]] [] (Some 2) (Some False)
     = Inr (Polytopes
         [\<lparr>name = ''Initial Valuation I'', vertices = [[0, 0], [1, 0], [1, 1], [0, 1]]\<rparr>,
          \<lparr>name = ''mat_exp(flow) * I'', vertices = [[0, 0], [1, 0], [3, 1], [2, 1]]\<rparr>,
          \<lparr>name = ''Omega_1: convHull(mink_sum(mat_exp(flow) * I, bloat), I)'',
           vertices = [[0, 0], [1, 0], [3, 1], [0, 1]]\<rparr>])
   \<and> expm exact_env [[0, 2], [0, 0]] = Inr [[1, 2], [0, 1]]
   \<and> hull_reduce exact_env [[0, 0], [1, 0], [3, 1], [2, 1]]
       = Inr [[0, 0], [1, 0], [3, 1], [2, 1]]"
proof -
  have M: "expm exact_env
      (map (map (\<lambda>x. (case Some 2 of None \<Rightarrow> 1 | Some s \<Rightarrow> s) * x)) shear)
        = Inr [[1, 2], [0, 1]]"
    using expm_stepped by (simp add: shear_def)
  from propagated_record[OF run_stepped M] run_stepped expm_stepped
  show ?thesis
    by (simp add: unit_square_def shear_def)
qed

theorem enclosure_minkowski_witness:
  "approx exact_env unit_square shear corner None (Some False) = Inr (Polytopes bloated_records)
   \<and> expm exact_env (smul (with_default 1 None) shear) = Inr [[1, 1], [0, 1]]
   \<and> corner \<noteq> []
   \<and> (\<exists>psums.
           list_all2 (\<lambda>(p, b) s. vadd p b = Inr s)
             (List.product (map (apply_matrix [[1, 1], [0, 1]]) unit_square) corner) psums
         \<and> length psums = length unit_square * length corner
         \<and> name (bloated_records ! 2)
             = ''Omega_1: convHull(mink_sum(mat_exp(flow) * I, bloat), I)''
         \<and> hull_reduce exact_env (psums @ unit_square) = Inr (vertices (bloated_records ! 2)))"
  using enclosure_minkowski[OF run_bloated expm_shear corner_nonempty]
    run_bloated expm_shear corner_nonempty by simp

theorem record_order_witness:
  "approx exact_env unit_square shear corner None (Some False) = Inr (Polytopes bloated_records)
   \<and> map name bloated_records =
        [''Initial Valuation I'', ''mat_exp(flow) * I'',
         ''Omega_1: convHull(mink_sum(mat_exp(flow) * I, bloat), I)'', ''Bloating'']
   \<and> hull_reduce exact_env unit_square = Inr (vertices (bloated_records ! 0))
   \<and> hull_reduce exact_env corner = Inr (vertices (bloated_records ! 3))"
  using record_order[OF run_bloated] run_bloated corner_nonempty by simp

theorem empty_bloating_witness:
  "approx exact_env unit_square shear [] None (Some False) = Inr (Polytopes plain_records)
   \<and> expm exact_env (smul (with_default 1 None) shear) = Inr [[1, 1], [0, 1]]
   \<and> map name plain_records =
        [''Initial Valuation I'', ''mat_exp(flow) * I'',
         ''Omega_1: convHull(mink_sum(mat_exp(flow) * I, bloat), I)'']
   \<and> hull_reduce exact_env (map (apply_matrix [[1, 1], [0, 1]]) unit_square @ unit_square)
       = Inr (vertices (plain_records ! 2))"
  using empty_bloating[OF run_plain expm_shear] run_plain expm_shear
  by simp

theorem vertices_from_candidates_witness:
  "approx exact_env unit_square shear corner None (Some False) = Inr (Polytopes bloated_records)
   \<and> candidates exact_env unit_square shear corner (with_default 1 None)
       = Inr bloated_candidates
   \<and> length bloated_records = length bloated_candidates
   \<and> set (vertices (bloated_records ! 2)) \<subseteq> set (vertices (bloated_candidates ! 2))"
proof -
  have "(2::nat) < length bloated_records"
    by (simp add: bloated_records_def)
  with vertices_from_candidates[OF run_bloated cand_bloated] run_bloated cand_bloated
  show ?thesis by blast
qed

theorem plot_flag_default_witness:
  "approx exact_env unit_square shear corner None None = Inr PyNone
   \<and> approx exact_env unit_square shear corner None (Some False)
       = Inr (Polytopes bloated_records)
   \<and> approx exact_env unit_square shear corner None None
       = approx exact_env unit_square shear corner None (Some True)
   \<and> plot_polytopes exact_env bloated_records = Inr ()"
  using plot_flag_default[of exact_env unit_square shear corner None PyNone
      "Some False" bloated_records] run_bloated run_plotted
  by (simp split: sum.splits)

theorem hull_exception_surfaces_witness:
  "candidates exact_env segment shear [] (with_default 1 None) = Inr segment_candidates
   \<and> 0 < length segment_candidates
   \<and> ConvexHull exact_env (vertices (segment_candidates ! 0)) = Inl QhullError
   \<and> approx exact_env segment shear [] None (Some False) = Inl QhullError"
proof -
  have len: "0 < length segment_candidates"
    by (simp add: segment_candidates_def)
  have hull: "ConvexHull exact_env (vertices (segment_candidates ! 0)) = Inl QhullError"
    by code_simp
  have "\<forall>j<0. \<not> isl (reduce_polytope exact_env (segment_candidates ! j))"
    by simp
  from hull_exception_surfaces[OF cand_segment len hull this, of "Some False"]
    cand_segment len hull
  show ?thesis by blast
qed

text \<open>
  C3, as stated, fails: there is no one exception for degenerate sets. The empty region
  and the collinear region \<open>(0,0), (1,0), (2,0)\<close> are both degenerate, and the call raises
  \<^verbatim>\<open>IndexError\<close> for the first and \<^verbatim>\<open>QhullError\<close> for the second: each time what the
  hull routine raised.
\<close>

theorem degenerate_exceptions_differ:
  "degenerate [] \<and> degenerate [[0, 0], [1, 0], [2, 0]]
   \<and> approx exact_env [] [[0, 1], [0, 0]] [] None (Some False) = Inl IndexError
   \<and> approx exact_env [[0, 0], [1, 0], [2, 0]] [[0, 1], [0, 0]] [] None (Some False)
       = Inl QhullError"
  by code_simp

theorem zero_flow_identity_witness:
  "approx exact_env unit_square (zeros 2) [] (Some 3) (Some False)
     = Inr (Polytopes
         [\<lparr>name = ''Initial Valuation I'', vertices = [[0, 0], [1, 0], [1, 1], [0, 1]]\<rparr>,
          \<lparr>name = ''mat_exp(flow) * I'', vertices = [[0, 0], [1, 0], [1, 1], [0, 1]]\<rparr>,
          \<lparr>name = ''Omega_1: convHull(mink_sum(mat_exp(flow) * I, bloat), I)'',
           vertices = [[0, 0], [1, 0], [1, 1], [0, 1]]\<rparr>])
   \<and> expm exact_env (zeros 2) = Inr (eye 2)
   \<and> map (apply_matrix (eye 2)) unit_square = unit_square"
proof -
  have run: "approx exact_env unit_square (zeros 2) [] (Some 3) (Some False)
     = Inr (Polytopes
         [\<lparr>name = ''Initial Valuation I'', vertices = [[0, 0], [1, 0], [1, 1], [0, 1]]\<rparr>,
          \<lparr>name = ''mat_exp(flow) * I'', vertices = [[0, 0], [1, 0], [1, 1], [0, 1]]\<rparr>,
          \<lparr>name = ''Omega_1: convHull(mink_sum(mat_exp(flow) * I, bloat), I)'',
           vertices = [[0, 0], [1, 0], [1, 1], [0, 1]]\<rparr>])"
    by code_simp
  have id: "expm exact_env (zeros 2) = Inr (eye 2)"
    by code_simp
  from zero_flow_identity[OF run id] run id show ?thesis by blast
qed

theorem shape_mismatch_raises_witness:
  "expm exact_env (smul (with_default 1 None) (zeros 3)) = Inr (eye 3)
   \<and> [0, 0] \<in> set unit_square
   \<and> \<not> conforms (eye 3) [0, 0]
   \<and> approx exact_env unit_square (zeros 3) [] None (Some False) = Inl ValueError"
proof -
  have a: "expm exact_env (smul (with_default 1 None) (zeros 3)) = Inr (eye 3)"
    by code_simp
  have b: "[0, 0] \<in> set unit_square"
    by (simp add: unit_square_def)
  have c: "\<not> conforms (eye 3) [0, 0]"
    by (simp add: conforms_eye)
  from shape_mismatch_raises[of exact_env None "zeros 3" "eye 3" "[0, 0]" unit_square
      "[]" "Some False"] a b c
  show ?thesis by blast
qed

text \<open>
  C8, as stated, fails: with the step size \<open>-1\<close> the call returns the records of the
  square sheared backwards.
\<close>

theorem nonpositive_step_accepted:
  "\<not> (0::real) < - 1
   \<and> approx exact_env unit_square shear [] (Some (- 1)) (Some False)
     = Inr (Polytopes
         [\<lparr>name = ''Initial Valuation I'', vertices = [[0, 0], [1, 0], [1, 1], [0, 1]]\<rparr>,
          \<lparr>name = ''mat_exp(flow) * I'', vertices = [[0, 0], [1, 0], [0, 1], [- 1, 1]]\<rparr>,
          \<lparr>name = ''Omega_1: convHull(mink_sum(mat_exp(flow) * I, bloat), I)'',
           vertices = [[0, 0], [1, 0], [1, 1], [- 1, 1]]\<rparr>])"
  by code_simp

end
